theory Spec2Isabelle
  imports Main "HOL-Library.AList"
begin

section \<open>Values, exceptions and observable effects\<close>

text \<open>
  The script \<^verbatim>\<open>gemini_review.py\<close> is a sequence of calls to the outside world: it
  reads a configuration file, runs git, calls a remote text-generation service, sleeps,
  creates a directory and writes files. The model makes every such call an \<open>event\<close> of a
  trace and takes the answers of the outside world from a record \<open>world\<close>.

  A Python \<^verbatim>\<open>str\<close> is modelled as a \<open>string\<close>: one \<open>char\<close> stands for one code point
  of the 8-bit range.
\<close>

text \<open>The values \<^verbatim>\<open>json.load\<close> produces. \<open>JNull\<close> is Python's \<^verbatim>\<open>None\<close>, which is also
  what \<^verbatim>\<open>dict.get\<close> returns for a missing key. \<open>JNum\<close> stands for any number: no branch
  of the script looks inside one. \<open>JObj\<close> holds the items of a dict: a key occurs once.\<close>

datatype json =
    JNull
  | JBool bool
  | JNum int
  | JStr string
  | JArr "json list"
  | JObj "(string \<times> json) list"

text \<open>The exceptions that can leave a function of the script. \<open>SystemExit n\<close> is
  \<^verbatim>\<open>sys.exit(n)\<close>; \<open>ClientError\<close> is any exception of the API client that is not a
  \<^verbatim>\<open>genai.errors.APIError\<close>.\<close>

datatype exn =
    SystemExit nat
  | JSONDecodeError
  | AttributeError
  | TypeError
  | CalledProcessError
  | ClientError

text \<open>The messages the script prints, one constructor for each \<^verbatim>\<open>print\<close> call of the
  source, with the values it formats into the text.\<close>

datatype msg =
    ConfigNotFound string
  | ApiKeyNotSet
  | RateLimited
  | OverloadedRetry nat
  | GitDirNotFound string
  | ReviewTarget string
  | BaseBranch string
  | UsedModel string
  | CurrentBranch string
  | LatestCommit string string
  | NoDifference
  | DiffIsEmpty
  | RequestingReview
  | ReviewFailed
  | SavedDiff string
  | SavedMeta string
  | SavedReview string
  | ExcerptHeader
  | Excerpt string

datatype event =
    Stdout msg
  | Stderr msg
  | RunGit "string list" string
  | Generate json string
  | Sleep nat
  | Mkdir string
  | WriteText string string

text \<open>What one call of \<^verbatim>\<open>try_call_gemini_api\<close> does: it returns the response text, raises
  an \<^verbatim>\<open>APIError\<close> (whose \<^verbatim>\<open>code\<close> attribute may be missing), or raises something
  else. The text of a response is a string, as the annotation of \<^verbatim>\<open>call_gemini_api\<close>
  says.\<close>

datatype api_outcome =
    Response string
  | APIError "int option"
  | OtherFailure

record world =
  read_file :: "string \<Rightarrow> string option"
  json_load :: "string \<Rightarrow> json option"
  path_exists :: "string \<Rightarrow> bool"
  git :: "string list \<Rightarrow> string \<Rightarrow> string option"
  api_key :: "string option"
  generate_content :: "nat \<Rightarrow> json \<Rightarrow> string \<Rightarrow> api_outcome"
  now :: string
  resolve :: "string \<Rightarrow> string"
  format_value :: "json \<Rightarrow> string"

text \<open>
  \<^item> \<open>read_file w p\<close> is the text of the file at \<open>p\<close>, \<open>None\<close> when \<^verbatim>\<open>open\<close> raises
    \<^verbatim>\<open>FileNotFoundError\<close>;
  \<^item> \<open>json_load w t\<close> is the value \<^verbatim>\<open>json.load\<close> parses from \<open>t\<close>, \<open>None\<close> when it raises
    \<^verbatim>\<open>JSONDecodeError\<close>;
  \<^item> \<open>git w cmd cwd\<close> is the standard output of the command, \<open>None\<close> when it exits with a
    nonzero status (\<^verbatim>\<open>check=True\<close> then raises \<^verbatim>\<open>CalledProcessError\<close>);
  \<^item> \<open>api_key w\<close> is \<^verbatim>\<open>os.getenv("GEMINI_API_KEY")\<close>;
  \<^item> \<open>generate_content w n model contents\<close> is the outcome of the \<open>n\<close>-th call of the
    service in this run, counted from \<open>0\<close>;
  \<^item> \<open>now w\<close> is the current time formatted as \<^verbatim>\<open>%Y%m%d_%H%M%S\<close>;
  \<^item> \<open>resolve w p\<close> is \<^verbatim>\<open>Path(p).resolve()\<close> as text;
  \<^item> \<open>format_value w v\<close> is \<^verbatim>\<open>str(v)\<close> for a number, a list or a dict.
\<close>

type_synonym 'a run = "(exn + 'a) \<times> event list"

definition ret :: "'a \<Rightarrow> 'a run" where
  "ret x = (Inr x, [])"

definition raise :: "exn \<Rightarrow> 'a run" where
  "raise e = (Inl e, [])"

definition emit :: "event \<Rightarrow> unit run" where
  "emit ev = (Inr (), [ev])"

definition after :: "event list \<Rightarrow> 'a run \<Rightarrow> 'a run" where
  "after t m = (fst m, t @ snd m)"

definition bind :: "'a run \<Rightarrow> ('a \<Rightarrow> 'b run) \<Rightarrow> 'b run" where
  "bind m f = (case fst m of Inl e \<Rightarrow> (Inl e, snd m) | Inr x \<Rightarrow> after (snd m) (f x))"

definition result :: "'a run \<Rightarrow> exn + 'a" where
  "result m = fst m"

definition trace :: "'a run \<Rightarrow> event list" where
  "trace m = snd m"

text \<open>The exit status of the process: \<open>0\<close> when \<^verbatim>\<open>main\<close> returns, the argument of
  \<^verbatim>\<open>sys.exit\<close>, and \<open>1\<close> when another exception reaches the top level.\<close>

definition exit_status :: "unit run \<Rightarrow> nat" where
  "exit_status m = (case fst m of Inr _ \<Rightarrow> 0 | Inl (SystemExit n) \<Rightarrow> n | Inl _ \<Rightarrow> 1)"

section \<open>Strings\<close>

definition newline :: string where
  "newline = [CHR 0x0A]"

text \<open>The characters \<^verbatim>\<open>str.strip()\<close> removes, among the code points below 256.\<close>

definition is_space :: "char \<Rightarrow> bool" where
  "is_space c = ((of_char c :: nat) \<in> {9, 10, 11, 12, 13, 28, 29, 30, 31, 32, 133, 160})"

definition strip :: "string \<Rightarrow> string" where
  "strip s = rev (dropWhile is_space (rev (dropWhile is_space s)))"

text \<open>\<^verbatim>\<open>sep.join(xs)\<close> on strings.\<close>

fun join :: "string \<Rightarrow> string list \<Rightarrow> string" where
  "join sep [] = []"
| "join sep [x] = x"
| "join sep (x # y # ys) = x @ sep @ join sep (y # ys)"

text \<open>\<^verbatim>\<open>"\n".join(v)\<close> on a loaded list: a \<^verbatim>\<open>TypeError\<close> when an item is not a string.\<close>

fun str_items :: "json list \<Rightarrow> string list option" where
  "str_items [] = Some []"
| "str_items (JStr s # vs) = (case str_items vs of None \<Rightarrow> None | Some ss \<Rightarrow> Some (s # ss))"
| "str_items (_ # vs) = None"

text \<open>\<^verbatim>\<open>str(v)\<close>, as the f-strings of the script apply it.\<close>

definition py_str :: "world \<Rightarrow> json \<Rightarrow> string" where
  "py_str w v =
     (case v of
        JStr s \<Rightarrow> s
      | JNull \<Rightarrow> ''None''
      | JBool b \<Rightarrow> (if b then ''True'' else ''False'')
      | _ \<Rightarrow> format_value w v)"

text \<open>\<^verbatim>\<open>d.get(k, default)\<close>.\<close>

definition dict_get :: "(string \<times> json) list \<Rightarrow> string \<Rightarrow> json \<Rightarrow> json" where
  "dict_get d k dflt = (case map_of d k of None \<Rightarrow> dflt | Some v \<Rightarrow> v)"

section \<open>Git Inspector\<close>

text \<open>A string argument of \<^verbatim>\<open>subprocess.run\<close>: anything else is a \<^verbatim>\<open>TypeError\<close>, raised
  before a process is started.\<close>

fun str_args :: "json list \<Rightarrow> string list option" where
  "str_args [] = Some []"
| "str_args (JStr s # vs) = (case str_args vs of None \<Rightarrow> None | Some ss \<Rightarrow> Some (s # ss))"
| "str_args (_ # vs) = None"

definition run_cmd :: "world \<Rightarrow> json list \<Rightarrow> string \<Rightarrow> string run" where
  "run_cmd w cmd cwd =
     (case str_args cmd of
        None \<Rightarrow> raise TypeError
      | Some args \<Rightarrow>
          bind (emit (RunGit args cwd)) (\<lambda>_.
            case git w args cwd of
              None \<Rightarrow> raise CalledProcessError
            | Some out \<Rightarrow> ret (strip out)))"

definition get_current_branch :: "world \<Rightarrow> string \<Rightarrow> string run" where
  "get_current_branch w cwd = run_cmd w [JStr ''git'', JStr ''branch'', JStr ''--contains''] cwd"

definition get_latest_commit :: "world \<Rightarrow> json \<Rightarrow> string \<Rightarrow> string run" where
  "get_latest_commit w branch cwd = run_cmd w [JStr ''git'', JStr ''rev-parse'', branch] cwd"

definition get_diff :: "world \<Rightarrow> string \<Rightarrow> string \<Rightarrow> string \<Rightarrow> string run" where
  "get_diff w from_commit to_commit cwd =
     run_cmd w [JStr ''git'', JStr ''diff'', JStr ''--minimal'',
                JStr (from_commit @ ''..'' @ to_commit)] cwd"

section \<open>Config Loader\<close>

text \<open>Only \<^verbatim>\<open>FileNotFoundError\<close> is caught. \<^verbatim>\<open>config.get\<close> on a loaded value that is not a
  dict raises \<^verbatim>\<open>AttributeError\<close>.\<close>

definition load_config :: "world \<Rightarrow> string \<Rightarrow> (string \<times> json) list run" where
  "load_config w path =
     (case read_file w path of
        None \<Rightarrow> bind (emit (Stderr (ConfigNotFound path))) (\<lambda>_. raise (SystemExit 1))
      | Some text \<Rightarrow>
          (case json_load w text of
             None \<Rightarrow> raise JSONDecodeError
           | Some (JObj config) \<Rightarrow>
               (case dict_get config ''prompt'' JNull of
                  JArr items \<Rightarrow>
                    (case str_items items of
                       None \<Rightarrow> raise TypeError
                     | Some lines \<Rightarrow>
                         ret (AList.update ''prompt'' (JStr (join newline lines)) config))
                | _ \<Rightarrow> ret config)
           | Some _ \<Rightarrow> raise AttributeError))"

section \<open>Review Requester\<close>

definition retry_time :: "nat list" where
  "retry_time = [3, 30, 120, 300, 600]"

text \<open>The \<^verbatim>\<open>while True\<close> loop of \<^verbatim>\<open>call_gemini_api\<close>, entered with the counter \<open>i\<close>. The
  counter is the number of failed attempts so far, so the attempt made here is attempt
  number \<open>i\<close> of the run. The index \<open>retry_time ! i'\<close> is in range where it is read: the
  test before it has left the loop for \<open>i' > 4\<close>.\<close>

function attempt_loop :: "world \<Rightarrow> json \<Rightarrow> string \<Rightarrow> nat \<Rightarrow> string option run" where
  "attempt_loop w model prompt i =
     (case generate_content w i model prompt of
        Response text \<Rightarrow> (Inr (Some text), [Generate model prompt])
      | OtherFailure \<Rightarrow> (Inl ClientError, [Generate model prompt])
      | APIError code \<Rightarrow>
          (let i' = i + 1 in
           if code = None then (Inr None, [Generate model prompt])
           else if i' > length retry_time - 1 then (Inr None, [Generate model prompt])
           else if code = Some 429 then
             (Inr None, [Generate model prompt, Stdout RateLimited])
           else if code = Some 503 then
             after [Generate model prompt, Stdout (OverloadedRetry (retry_time ! i')),
                    Sleep (retry_time ! i')]
               (attempt_loop w model prompt i')
           else after [Generate model prompt] (attempt_loop w model prompt i')))"
  by pat_completeness auto
termination
  by (relation "measure (\<lambda>(w, model, prompt, i). length retry_time - i)")
     (auto simp: retry_time_def)

definition call_gemini_api :: "world \<Rightarrow> json \<Rightarrow> string \<Rightarrow> string option run" where
  "call_gemini_api w model prompt =
     (case api_key w of
        None \<Rightarrow> bind (emit (Stderr ApiKeyNotSet)) (\<lambda>_. raise (SystemExit 1))
      | Some _ \<Rightarrow> attempt_loop w model prompt 0)"

section \<open>The run\<close>

text \<open>\<^verbatim>\<open>Path(v)\<close> accepts a string among the loaded values; paths are kept as text, and
  \<^verbatim>\<open>Path(f"./review/{timestamp}")\<close> is written the way \<^verbatim>\<open>pathlib\<close> prints it, without the
  leading \<^verbatim>\<open>./\<close>. A write of a file or the creation of the directory always succeeds.\<close>

definition Path :: "json \<Rightarrow> string run" where
  "Path v = (case v of JStr s \<Rightarrow> ret s | _ \<Rightarrow> raise TypeError)"

definition path_join :: "string \<Rightarrow> string \<Rightarrow> string" where
  "path_join dir name = dir @ ''/'' @ name"

definition meta_info ::
  "world \<Rightarrow> string \<Rightarrow> string \<Rightarrow> json \<Rightarrow> string \<Rightarrow> string \<Rightarrow> string \<Rightarrow> json \<Rightarrow> json \<Rightarrow> string" where
  "meta_info w timestamp project_dir base_branch base_commit current_branch head_commit
       model prompt =
     ''date: '' @ timestamp @ newline @
     ''project path: '' @ resolve w project_dir @ newline @
     ''base branch: '' @ py_str w base_branch @ newline @
     ''base commit: '' @ base_commit @ newline @
     ''review target branch: '' @ current_branch @ newline @
     ''review target commit: '' @ head_commit @ newline @
     ''model: '' @ py_str w model @ newline @
     ''----'' @ newline @
     ''prompt:'' @ newline @
     py_str w prompt @ newline"

definition main :: "world \<Rightarrow> unit run" where
  "main w =
     bind (load_config w ''review_config.json'') (\<lambda>config.
     let project_path = dict_get config ''project_path'' (JStr ''.'');
         base_branch = dict_get config ''base_branch'' JNull;
         model = dict_get config ''model'' JNull;
         prompt = dict_get config ''prompt'' JNull
     in
     bind (Path project_path) (\<lambda>project_dir.
     if \<not> path_exists w (path_join project_dir ''.git'') then
       bind (emit (Stderr (GitDirNotFound project_dir))) (\<lambda>_. raise (SystemExit 1))
     else
     bind (emit (Stdout (ReviewTarget project_dir))) (\<lambda>_.
     bind (emit (Stdout (BaseBranch (py_str w base_branch)))) (\<lambda>_.
     bind (emit (Stdout (UsedModel (py_str w model)))) (\<lambda>_.
     bind (get_current_branch w project_dir) (\<lambda>branch_out.
     let current_branch = drop 2 branch_out in
     bind (get_latest_commit w base_branch project_dir) (\<lambda>base_commit.
     bind (get_latest_commit w (JStr current_branch) project_dir) (\<lambda>head_commit.
     bind (emit (Stdout (CurrentBranch current_branch))) (\<lambda>_.
     bind (emit (Stdout (LatestCommit (py_str w base_branch) base_commit))) (\<lambda>_.
     bind (emit (Stdout (LatestCommit current_branch head_commit))) (\<lambda>_.
     if base_commit = head_commit then emit (Stdout NoDifference)
     else
     bind (get_diff w base_commit head_commit project_dir) (\<lambda>diff_text.
     if strip diff_text = [] then emit (Stdout DiffIsEmpty)
     else
     bind (emit (Stdout RequestingReview)) (\<lambda>_.
     bind (call_gemini_api w model
             (py_str w prompt @ newline @ ''```'' @ diff_text @ ''```'')) (\<lambda>review_result.
     case review_result of
       None \<Rightarrow> emit (Stdout ReviewFailed)
     | Some review \<Rightarrow>
     let timestamp = now w;
         output_dir = ''review/'' @ timestamp;
         diff_path = path_join output_dir ''diff.txt'';
         review_path = path_join output_dir ''review.md'';
         meta_path = path_join output_dir ''meta.txt''
     in
     bind (emit (Mkdir output_dir)) (\<lambda>_.
     bind (emit (WriteText diff_path diff_text)) (\<lambda>_.
     bind (emit (Stdout (SavedDiff diff_path))) (\<lambda>_.
     bind (emit (WriteText meta_path
             (meta_info w timestamp project_dir base_branch base_commit current_branch
                head_commit model prompt))) (\<lambda>_.
     bind (emit (Stdout (SavedMeta meta_path))) (\<lambda>_.
     bind (emit (WriteText review_path review)) (\<lambda>_.
     bind (emit (Stdout (SavedReview review_path))) (\<lambda>_.
     bind (emit (Stdout ExcerptHeader)) (\<lambda>_.
     emit (Stdout (Excerpt (take 2000 review)))))))))))))))))))))))))"

section \<open>Observations on a run\<close>

definition is_api_call :: "event \<Rightarrow> bool" where
  "is_api_call e = (case e of Generate _ _ \<Rightarrow> True | _ \<Rightarrow> False)"

definition is_sleep :: "event \<Rightarrow> bool" where
  "is_sleep e = (case e of Sleep _ \<Rightarrow> True | _ \<Rightarrow> False)"

definition is_mkdir :: "event \<Rightarrow> bool" where
  "is_mkdir e = (case e of Mkdir _ \<Rightarrow> True | _ \<Rightarrow> False)"

definition is_git :: "event \<Rightarrow> bool" where
  "is_git e = (case e of RunGit _ _ \<Rightarrow> True | _ \<Rightarrow> False)"

definition is_write :: "event \<Rightarrow> bool" where
  "is_write e = (case e of WriteText _ _ \<Rightarrow> True | _ \<Rightarrow> False)"

text \<open>The run gets through the Config Loader and the Git Inspector of \<^verbatim>\<open>main\<close>: the
  configuration is loaded as \<open>config\<close>, its project path is the string \<open>project_dir\<close>,
  which holds a \<^verbatim>\<open>.git\<close>, and the three git commands before the comparison of the
  commits succeed with the outputs \<open>branch_out\<close>, \<open>base_commit\<close> and \<open>head_commit\<close>.\<close>

definition inspected ::
  "world \<Rightarrow> (string \<times> json) list \<Rightarrow> string \<Rightarrow> string \<Rightarrow> string \<Rightarrow> string \<Rightarrow> bool" where
  "inspected w config project_dir branch_out base_commit head_commit =
     (result (load_config w ''review_config.json'') = Inr config \<and>
      dict_get config ''project_path'' (JStr ''.'') = JStr project_dir \<and>
      path_exists w (path_join project_dir ''.git'') \<and>
      result (get_current_branch w project_dir) = Inr branch_out \<and>
      result (get_latest_commit w (dict_get config ''base_branch'' JNull) project_dir)
        = Inr base_commit \<and>
      result (get_latest_commit w (JStr (drop 2 branch_out)) project_dir) = Inr head_commit)"

section \<open>A concrete repository and service\<close>

text \<open>A world to run the script in: a configuration whose prompt is a list of two
  lines, a repository \<^verbatim>\<open>repo\<close> on the branch \<^verbatim>\<open>feature\<close> with the base branch \<^verbatim>\<open>main\<close>,
  and a service whose \<open>n\<close>-th call has the outcome \<open>api n\<close>.\<close>

definition demo_config :: "(string \<times> json) list" where
  "demo_config =
     [(''project_path'', JStr ''repo''),
      (''base_branch'', JStr ''main''),
      (''model'', JStr ''gemini-pro''),
      (''prompt'', JArr [JStr ''line1'', JStr ''line2''])]"

definition demo_git :: "string list \<Rightarrow> string \<Rightarrow> string option" where
  "demo_git cmd cwd =
     (if cmd = [''git'', ''branch'', ''--contains''] then Some (''* feature'' @ newline)
      else if cmd = [''git'', ''rev-parse'', ''main''] then Some (''a1'' @ newline)
      else if cmd = [''git'', ''rev-parse'', ''feature''] then Some (''b2'' @ newline)
      else if cmd = [''git'', ''diff'', ''--minimal'', ''a1..b2''] then Some (''+x'' @ newline)
      else None)"

definition demo_world :: "(nat \<Rightarrow> api_outcome) \<Rightarrow> world" where
  "demo_world api =
     \<lparr> read_file = (\<lambda>p. if p = ''review_config.json'' then Some ''CONFIG'' else None),
       json_load = (\<lambda>t. if t = ''CONFIG'' then Some (JObj demo_config) else None),
       path_exists = (\<lambda>p. p = ''repo/.git''),
       git = demo_git,
       api_key = Some ''KEY'',
       generate_content = (\<lambda>n model contents. api n),
       now = ''20250101_120000'',
       resolve = (\<lambda>p. ''/home/'' @ p),
       format_value = (\<lambda>v. ''?'') \<rparr>"

text \<open>Three overload errors, then a response.\<close>

definition overloaded_thrice :: "nat \<Rightarrow> api_outcome" where
  "overloaded_thrice n = (if n < 3 then APIError (Some 503) else Response ''LGTM'')"

text \<open>One internal error (code 500), then a response.\<close>

definition internal_error_once :: "nat \<Rightarrow> api_outcome" where
  "internal_error_once n = (if n = 0 then APIError (Some 500) else Response ''LGTM'')"

text \<open>The same repository when the feature branch points at the commit of the base
  branch.\<close>

definition same_commit_world :: world where
  "same_commit_world =
     (demo_world overloaded_thrice)
       \<lparr> git := (\<lambda>cmd cwd. if cmd = [''git'', ''rev-parse'', ''feature'']
                           then Some (''a1'' @ newline) else demo_git cmd cwd) \<rparr>"

text \<open>The same repository when \<^verbatim>\<open>git diff\<close> prints only white space.\<close>

definition blank_diff_world :: world where
  "blank_diff_world =
     (demo_world overloaded_thrice)
       \<lparr> git := (\<lambda>cmd cwd. if cmd = [''git'', ''diff'', ''--minimal'', ''a1..b2'']
                           then Some ('' '' @ newline) else demo_git cmd cwd) \<rparr>"

text \<open>No configuration file; a configuration file that is not JSON.\<close>

definition no_config_world :: world where
  "no_config_world = (demo_world overloaded_thrice) \<lparr> read_file := (\<lambda>p. None) \<rparr>"

definition bad_json_world :: world where
  "bad_json_world = (demo_world overloaded_thrice) \<lparr> json_load := (\<lambda>t. None) \<rparr>"

text \<open>A configuration whose prompt is a single string.\<close>

definition single_prompt_world :: world where
  "single_prompt_world =
     (demo_world overloaded_thrice)
       \<lparr> json_load := (\<lambda>t. Some (JObj [(''prompt'', JStr ''review this'')])) \<rparr>"

text \<open>A service that raises a rate-limit error, and one that raises an overload error,
  on every call.\<close>

definition rate_limited :: "nat \<Rightarrow> api_outcome" where
  "rate_limited n = APIError (Some 429)"

definition always_overloaded :: "nat \<Rightarrow> api_outcome" where
  "always_overloaded n = APIError (Some 503)"

section \<open>Results and traces of the combinators\<close>

declare attempt_loop.simps [simp del]

lemma result_ret [simp]: "result (ret x) = Inr x" by (simp add: result_def ret_def)
lemma trace_ret [simp]: "trace (ret x) = []" by (simp add: trace_def ret_def)
lemma result_raise [simp]: "result (raise e) = Inl e" by (simp add: result_def raise_def)
lemma trace_raise [simp]: "trace (raise e) = []" by (simp add: trace_def raise_def)
lemma result_emit [simp]: "result (emit ev) = Inr ()" by (simp add: result_def emit_def)
lemma trace_emit [simp]: "trace (emit ev) = [ev]" by (simp add: trace_def emit_def)
lemma result_after [simp]: "result (after t m) = result m" by (simp add: result_def after_def)
lemma trace_after [simp]: "trace (after t m) = t @ trace m" by (simp add: trace_def after_def)
lemma result_pair [simp]: "result (r, t) = r" by (simp add: result_def)
lemma trace_pair [simp]: "trace (r, t) = t" by (simp add: trace_def)
lemma result_bind [simp]: "result (bind m f) = (case result m of Inl e \<Rightarrow> Inl e | Inr x \<Rightarrow> result (f x))"
  by (simp add: result_def bind_def after_def split: sum.splits)
lemma trace_bind [simp]: "trace (bind m f) = trace m @ (case result m of Inl e \<Rightarrow> [] | Inr x \<Rightarrow> trace (f x))"
  by (simp add: result_def trace_def bind_def after_def split: sum.splits)

lemma is_simps [simp]:
  "\<not> is_api_call (Stdout x)"
  "\<not> is_api_call (Stderr x)"
  "\<not> is_api_call (RunGit c d)"
  "is_api_call (Generate m p)"
  "\<not> is_api_call (Sleep n)"
  "\<not> is_api_call (Mkdir d)"
  "\<not> is_api_call (WriteText f t)"
  "\<not> is_sleep (Stdout x)"
  "\<not> is_sleep (Stderr x)"
  "\<not> is_sleep (RunGit c d)"
  "\<not> is_sleep (Generate m p)"
  "is_sleep (Sleep n)"
  "\<not> is_sleep (Mkdir d)"
  "\<not> is_sleep (WriteText f t)"
  "\<not> is_mkdir (Stdout x)"
  "\<not> is_mkdir (Stderr x)"
  "\<not> is_mkdir (RunGit c d)"
  "\<not> is_mkdir (Generate m p)"
  "\<not> is_mkdir (Sleep n)"
  "is_mkdir (Mkdir d)"
  "\<not> is_mkdir (WriteText f t)"
  "\<not> is_git (Stdout x)"
  "\<not> is_git (Stderr x)"
  "is_git (RunGit c d)"
  "\<not> is_git (Generate m p)"
  "\<not> is_git (Sleep n)"
  "\<not> is_git (Mkdir d)"
  "\<not> is_git (WriteText f t)"
  "\<not> is_write (Stdout x)"
  "\<not> is_write (Stderr x)"
  "\<not> is_write (RunGit c d)"
  "\<not> is_write (Generate m p)"
  "\<not> is_write (Sleep n)"
  "\<not> is_write (Mkdir d)"
  "is_write (WriteText f t)"
  by (simp_all add: is_api_call_def is_sleep_def is_mkdir_def is_git_def is_write_def)

lemma load_config_trace: "e \<in> set (trace (load_config w p)) \<Longrightarrow> e = Stderr (ConfigNotFound p)"
  by (auto simp: load_config_def split: option.splits json.splits)

lemma load_config_ok_trace: "result (load_config w p) = Inr c \<Longrightarrow> trace (load_config w p) = []"
  by (auto simp: load_config_def split: option.splits json.splits)

lemma run_cmd_trace: "e \<in> set (trace (run_cmd w cmd cwd)) \<Longrightarrow> is_git e"
  by (auto simp: run_cmd_def split: option.splits)

lemma Path_trace [simp]: "trace (Path v) = []"
  by (simp add: Path_def split: json.splits)

lemma filter_none: "(\<And>e. e \<in> set xs \<Longrightarrow> \<not> P e) \<Longrightarrow> filter P xs = []"
  by (simp add: filter_empty_conv)

lemma load_config_filter [simp]:
  "filter is_api_call (trace (load_config w p)) = []"
  "filter is_sleep (trace (load_config w p)) = []"
  "filter is_mkdir (trace (load_config w p)) = []"
  "filter is_write (trace (load_config w p)) = []"
  "filter is_git (trace (load_config w p)) = []"
  by (rule filter_none, drule load_config_trace, simp)+

lemma git_not_others:
  "is_git e \<Longrightarrow> \<not> is_api_call e" "is_git e \<Longrightarrow> \<not> is_sleep e"
  "is_git e \<Longrightarrow> \<not> is_mkdir e" "is_git e \<Longrightarrow> \<not> is_write e"
  by (cases e; simp)+

lemma run_cmd_filter [simp]:
  "filter is_api_call (trace (run_cmd w cmd cwd)) = []"
  "filter is_sleep (trace (run_cmd w cmd cwd)) = []"
  "filter is_mkdir (trace (run_cmd w cmd cwd)) = []"
  "filter is_write (trace (run_cmd w cmd cwd)) = []"
  by (rule filter_none, drule run_cmd_trace, simp add: git_not_others)+

lemmas git_defs = get_current_branch_def get_latest_commit_def get_diff_def

lemma attempt_loop_no_files [simp]:
  "filter is_mkdir (trace (attempt_loop w m p i)) = [] \<and>
   filter is_write (trace (attempt_loop w m p i)) = [] \<and>
   filter is_git (trace (attempt_loop w m p i)) = []"
proof (induction w m p i rule: attempt_loop.induct)
  case (1 w model prompt i)
  show ?case using 1
    by (subst (1 2 3) attempt_loop.simps) (auto simp: Let_def split: api_outcome.splits)
qed

lemma call_no_files [simp]:
  "filter is_mkdir (trace (call_gemini_api w m p)) = []"
  "filter is_write (trace (call_gemini_api w m p)) = []"
  "filter is_git (trace (call_gemini_api w m p)) = []"
  by (simp_all add: call_gemini_api_def split: option.splits)

lemma attempt_loop_first: "\<exists>t. trace (attempt_loop w m p i) = Generate m p # t"
  by (subst attempt_loop.simps) (simp add: Let_def split: api_outcome.splits)

lemma strip_blank: "list_all is_space s \<Longrightarrow> strip s = []"
proof -
  assume "list_all is_space s"
  then have d: "dropWhile is_space s = []" by (simp add: list_all_iff)
  show ?thesis unfolding strip_def d by simp
qed

lemma dict_get_update: "dict_get (AList.update k v d) k dflt = v"
  by (simp add: dict_get_def update_conv')

lemma str_items_map: "str_items (map JStr ls) = Some ls"
  by (induction ls) auto

lemma call_429:
  "api_key w = Some k \<Longrightarrow> generate_content w 0 m p = APIError (Some 429) \<Longrightarrow>
   call_gemini_api w m p = (Inr None, [Generate m p, Stdout RateLimited])"
  by (simp add: call_gemini_api_def attempt_loop.simps[of w m p 0] retry_time_def)

lemma call_nokey:
  "api_key w = None \<Longrightarrow> call_gemini_api w m p = (Inl (SystemExit 1), [Stderr ApiKeyNotSet])"
  by (simp add: call_gemini_api_def bind_def emit_def raise_def after_def)

lemma result_Path: "result (Path v) = (case v of JStr s \<Rightarrow> Inr s | _ \<Rightarrow> Inl TypeError)"
  by (simp add: Path_def split: json.splits)

section \<open>Review Requester: what the retry loop does\<close>

lemma attempt_503:
  "generate_content w i m p = APIError (Some 503) \<Longrightarrow> i < 4 \<Longrightarrow>
   attempt_loop w m p i =
     after [Generate m p, Stdout (OverloadedRetry (retry_time ! Suc i)), Sleep (retry_time ! Suc i)]
       (attempt_loop w m p (Suc i))"
  by (subst attempt_loop.simps) (simp add: retry_time_def)

lemma attempt_last:
  "generate_content w i m p = APIError c \<Longrightarrow> 4 \<le> i \<Longrightarrow>
   attempt_loop w m p i = (Inr None, [Generate m p])"
  by (subst attempt_loop.simps) (simp add: retry_time_def)

lemma overload_on_every_attempt_trace:
  assumes "api_key w = Some k" and "\<forall>n. generate_content w n m p = APIError (Some 503)"
  shows "call_gemini_api w m p =
    (Inr None, [Generate m p, Stdout (OverloadedRetry 30), Sleep 30,
                Generate m p, Stdout (OverloadedRetry 120), Sleep 120,
                Generate m p, Stdout (OverloadedRetry 300), Sleep 300,
                Generate m p, Stdout (OverloadedRetry 600), Sleep 600,
                Generate m p])"
  using assms
  by (simp add: call_gemini_api_def attempt_503 attempt_last retry_time_def after_def)

lemma attempts_bound:
  "length (filter is_api_call (trace (attempt_loop w m p i))) \<le> Suc (4 - i)"
proof (induction w m p i rule: attempt_loop.induct)
  case (1 w model prompt i)
  show ?case
  proof (cases "generate_content w i model prompt")
    case (Response t)
    then show ?thesis by (subst attempt_loop.simps) simp
  next
    case OtherFailure
    then show ?thesis by (subst attempt_loop.simps) simp
  next
    case (APIError code)
    show ?thesis
    proof (cases "code = None \<or> 4 \<le> i \<or> code = Some 429")
      case True
      with APIError show ?thesis
        by (subst attempt_loop.simps) (auto simp: Let_def retry_time_def)
    next
      case False
      with APIError have "length (filter is_api_call (trace (attempt_loop w model prompt (i + 1))))
          \<le> Suc (4 - (i + 1))"
        using "1.IH"(1)[of code "i + 1"] "1.IH"(2)[of code "i + 1"]
        by (cases "code = Some 503") (auto simp: retry_time_def)
      with APIError False show ?thesis
        by (subst attempt_loop.simps) (auto simp: Let_def retry_time_def)
    qed
  qed
qed

lemma call_some_attempted:
  "result (call_gemini_api w m p) = Inr (Some r) \<Longrightarrow>
   filter is_api_call (trace (call_gemini_api w m p)) \<noteq> []"
  using attempt_loop_first[of w m p 0]
  by (auto simp: call_gemini_api_def split: option.splits)

text \<open>No sleep of the loop lasts 3 seconds: the first entry of the schedule is never
  used.\<close>

lemma schedule_after_first: "i < 4 \<Longrightarrow> retry_time ! Suc i \<noteq> 3"
proof -
  assume "i < 4"
  then have "i = 0 \<or> i = 1 \<or> i = 2 \<or> i = 3" by arith
  then show ?thesis by (auto simp: retry_time_def)
qed

lemma loop_never_sleeps_three: "Sleep 3 \<notin> set (trace (attempt_loop w m p i))"
proof (induction w m p i rule: attempt_loop.induct)
  case (1 w model prompt i)
  show ?case
  proof (cases "generate_content w i model prompt")
    case (Response t)
    then show ?thesis by (subst attempt_loop.simps) simp
  next
    case OtherFailure
    then show ?thesis by (subst attempt_loop.simps) simp
  next
    case (APIError code)
    show ?thesis
    proof (cases "code = None \<or> 4 \<le> i \<or> code = Some 429")
      case True
      with APIError show ?thesis
        by (subst attempt_loop.simps) (auto simp: Let_def retry_time_def)
    next
      case False
      with APIError have "Sleep 3 \<notin> set (trace (attempt_loop w model prompt (i + 1)))"
        using "1.IH"(1)[of code "i + 1"] "1.IH"(2)[of code "i + 1"]
        by (cases "code = Some 503") (auto simp: retry_time_def)
      moreover from False have "retry_time ! Suc i \<noteq> 3"
        by (simp add: schedule_after_first)
      ultimately show ?thesis using APIError False
        by (subst attempt_loop.simps) (auto simp: Let_def)
    qed
  qed
qed

lemma never_sleeps_three_seconds: "Sleep 3 \<notin> set (trace (call_gemini_api w m p))"
  using loop_never_sleeps_three[of w m p 0]
  by (auto simp: call_gemini_api_def split: option.splits)

text \<open>
  C1 (code bug). The claim: when the service raises an overload error (503) on the first
  three attempts and answers the fourth, the script sleeps 3s, 30s and 120s, and the
  fourth answer is saved. The code adds one to the counter before it reads
  \<open>retry_time\<close>, so the first wait is the second entry: in this run the sleeps are 30s,
  120s and 300s. The answer of the fourth call is written to \<^verbatim>\<open>review.md\<close>.
\<close>

theorem three_overloads_sleep_30_120_300:
  "filter is_sleep (trace (main (demo_world overloaded_thrice)))
     = [Sleep 30, Sleep 120, Sleep 300] \<and>
   length (filter is_api_call (trace (main (demo_world overloaded_thrice)))) = 4 \<and>
   last (filter is_write (trace (main (demo_world overloaded_thrice))))
     = WriteText ''review/20250101_120000/review.md'' ''LGTM''"
  by code_simp

text \<open>
  C2 (code bug). The claim: an error with a status code that is neither 429 nor 503
  stops the requester at once, and it returns absent. The loop has no branch for such a
  code: it falls through to the next iteration and calls the service again, without a
  sleep. In this run the first call raises an error with code 500 and the second call
  answers: the service is called twice and the answer is saved.
\<close>

theorem other_code_is_retried_at_once:
  "length (filter is_api_call (trace (main (demo_world internal_error_once)))) = 2 \<and>
   filter is_sleep (trace (main (demo_world internal_error_once))) = [] \<and>
   last (filter is_write (trace (main (demo_world internal_error_once))))
     = WriteText ''review/20250101_120000/review.md'' ''LGTM''"
  by code_simp

text \<open>
  C3. When the service raises an overload error (503) on every attempt, the requester
  makes at most 6 attempts and returns absent. (The trace above shows that it makes 5:
  the first attempt and 4 retries.)
\<close>

theorem overload_on_every_attempt_at_most_six:
  assumes "api_key w = Some k" and "\<forall>n. generate_content w n m p = APIError (Some 503)"
  shows "result (call_gemini_api w m p) = Inr None \<and>
         length (filter is_api_call (trace (call_gemini_api w m p))) \<le> 6"
  using overload_on_every_attempt_trace[OF assms] by simp

theorem overload_on_every_attempt_witness:
  "result (call_gemini_api (demo_world always_overloaded) (JStr ''gemini-pro'') ''review this'')
     = Inr None \<and>
   length (filter is_api_call
     (trace (call_gemini_api (demo_world always_overloaded) (JStr ''gemini-pro'') ''review this'')))
     \<le> 6"
proof -
  have a: "api_key (demo_world always_overloaded) = Some ''KEY''"
    by (simp add: demo_world_def)
  have b: "\<forall>n. generate_content (demo_world always_overloaded) n (JStr ''gemini-pro'')
                ''review this'' = APIError (Some 503)"
    by (simp add: demo_world_def always_overloaded_def)
  show ?thesis using overload_on_every_attempt_at_most_six[OF a b] by simp
qed

section \<open>The run: which stages it reaches\<close>

text \<open>A run that calls the service or creates a directory has loaded its configuration,
  resolved two different commits and obtained a diff that is not blank.\<close>

lemma main_inversion:
  assumes act: "filter (\<lambda>e. is_api_call e \<or> is_mkdir e) (trace (main w)) \<noteq> []"
  shows "\<exists>config project_dir branch_out base_commit head_commit diff_text.
      inspected w config project_dir branch_out base_commit head_commit \<and>
      base_commit \<noteq> head_commit \<and>
      result (get_diff w base_commit head_commit project_dir) = Inr diff_text \<and>
      strip diff_text \<noteq> []"
proof -
  let ?P = "\<lambda>e. is_api_call e \<or> is_mkdir e"
  have lc: "filter ?P (trace (load_config w p)) = []" for p
    by (rule filter_none, drule load_config_trace, simp)
  have rc: "filter ?P (trace (run_cmd w cmd cwd)) = []" for cmd cwd
    by (rule filter_none, drule run_cmd_trace, simp add: git_not_others)
  have gb: "filter ?P (trace (get_current_branch w d)) = []" for d
    by (simp add: get_current_branch_def rc)
  have gl: "filter ?P (trace (get_latest_commit w b d)) = []" for b d
    by (simp add: get_latest_commit_def rc)
  have gd: "filter ?P (trace (get_diff w a b d)) = []" for a b d
    by (simp add: get_diff_def rc)
  note simps = main_def Let_def lc gb gl gd result_Path
  obtain config where c: "result (load_config w ''review_config.json'') = Inr config"
  proof (cases "result (load_config w ''review_config.json'')")
    case (Inr x)
    then show ?thesis by (rule that)
  qed (use act in \<open>simp add: simps\<close>)
  obtain pd where pd: "dict_get config ''project_path'' (JStr ''.'') = JStr pd"
  proof (cases "dict_get config ''project_path'' (JStr ''.'')")
    case (JStr s)
    then show ?thesis by (rule that)
  qed (use act c in \<open>simp_all add: simps\<close>)
  have pe: "path_exists w (path_join pd ''.git'')"
    by (rule ccontr) (use act c pd in \<open>simp add: simps\<close>)
  obtain bo where bo: "result (get_current_branch w pd) = Inr bo"
  proof (cases "result (get_current_branch w pd)")
    case (Inr x)
    then show ?thesis by (rule that)
  qed (use act c pd pe in \<open>simp add: simps\<close>)
  obtain bc where bc:
    "result (get_latest_commit w (dict_get config ''base_branch'' JNull) pd) = Inr bc"
  proof (cases "result (get_latest_commit w (dict_get config ''base_branch'' JNull) pd)")
    case (Inr x)
    then show ?thesis by (rule that)
  qed (use act c pd pe bo in \<open>simp add: simps\<close>)
  obtain hc where hc: "result (get_latest_commit w (JStr (drop 2 bo)) pd) = Inr hc"
  proof (cases "result (get_latest_commit w (JStr (drop 2 bo)) pd)")
    case (Inr x)
    then show ?thesis by (rule that)
  qed (use act c pd pe bo bc in \<open>simp add: simps\<close>)
  have ne: "bc \<noteq> hc"
    by (rule notI) (use act c pd pe bo bc hc in \<open>simp add: simps\<close>)
  obtain dt where dt: "result (get_diff w bc hc pd) = Inr dt"
  proof (cases "result (get_diff w bc hc pd)")
    case (Inr x)
    then show ?thesis by (rule that)
  qed (use act c pd pe bo bc hc ne in \<open>simp add: simps\<close>)
  have st: "strip dt \<noteq> []"
    by (rule notI) (use act c pd pe bo bc hc ne dt in \<open>simp add: simps\<close>)
  have "inspected w config pd bo bc hc"
    using c pd pe bo bc hc by (simp add: inspected_def)
  with ne dt st show ?thesis by blast
qed

text \<open>
  C4. In a run that calls the service, when the first attempt raises a rate-limit error
  (429): there is no sleep, there is exactly one attempt, the requester returns absent,
  no directory is created, and \<^verbatim>\<open>main\<close> prints that the review failed and returns.
\<close>

theorem rate_limit_stops_without_retry:
  assumes "filter is_api_call (trace (main w)) \<noteq> []"
    and "\<forall>m p. generate_content w 0 m p = APIError (Some 429)"
  shows "filter is_sleep (trace (main w)) = [] \<and>
         length (filter is_api_call (trace (main w))) = 1 \<and>
         filter is_mkdir (trace (main w)) = [] \<and>
         (\<forall>m p. call_gemini_api w m p = (Inr None, [Generate m p, Stdout RateLimited])) \<and>
         result (main w) = Inr () \<and> exit_status (main w) = 0 \<and>
         last (trace (main w)) = Stdout ReviewFailed"
proof -
  from assms(1) have "filter (\<lambda>e. is_api_call e \<or> is_mkdir e) (trace (main w)) \<noteq> []"
    by (auto simp: filter_empty_conv)
  from main_inversion[OF this] obtain config pd bo bc hc dt where
    ins: "inspected w config pd bo bc hc" and ne: "bc \<noteq> hc"
    and dt: "result (get_diff w bc hc pd) = Inr dt" and st: "strip dt \<noteq> []"
    by blast
  show ?thesis
  proof (cases "api_key w")
    case None
    with assms(1) ins ne dt st show ?thesis unfolding main_def inspected_def
      by (simp add: Let_def call_nokey result_Path git_defs)
  next
    case (Some k)
    with assms(2)
    have call: "\<And>m p. call_gemini_api w m p = (Inr None, [Generate m p, Stdout RateLimited])"
      by (simp add: call_429)
    with ins ne dt st show ?thesis unfolding main_def inspected_def
      by (simp add: Let_def result_Path exit_status_def result_def[symmetric]
            git_defs)
  qed
qed

theorem rate_limit_stops_witness:
  "filter is_sleep (trace (main (demo_world rate_limited))) = [] \<and>
   length (filter is_api_call (trace (main (demo_world rate_limited)))) = 1 \<and>
   filter is_mkdir (trace (main (demo_world rate_limited))) = [] \<and>
   result (main (demo_world rate_limited)) = Inr ()"
proof -
  have a: "filter is_api_call (trace (main (demo_world rate_limited))) \<noteq> []"
    by code_simp
  have b: "\<forall>m p. generate_content (demo_world rate_limited) 0 m p = APIError (Some 429)"
    by (simp add: demo_world_def rate_limited_def)
  show ?thesis using rate_limit_stops_without_retry[OF a b] by simp
qed

text \<open>
  C5. A run that creates a directory has obtained a diff that is not blank, has called
  the service and has got a response from the requester; it creates one directory, writes
  \<^verbatim>\<open>diff.txt\<close>, \<^verbatim>\<open>meta.txt\<close> and \<^verbatim>\<open>review.md\<close> into it, and returns. (A write of the
  model always succeeds: this is a run without a crash.)
\<close>

theorem output_directory_only_with_review:
  assumes "filter is_mkdir (trace (main w)) \<noteq> []"
  shows "\<exists>config project_dir branch_out base_commit head_commit diff_text review.
    inspected w config project_dir branch_out base_commit head_commit \<and>
    base_commit \<noteq> head_commit \<and>
    result (get_diff w base_commit head_commit project_dir) = Inr diff_text \<and>
    strip diff_text \<noteq> [] \<and>
    result (call_gemini_api w (dict_get config ''model'' JNull)
              (py_str w (dict_get config ''prompt'' JNull) @ newline @ ''```'' @ diff_text @ ''```''))
      = Inr (Some review) \<and>
    filter is_api_call (trace (main w)) \<noteq> [] \<and>
    filter is_mkdir (trace (main w)) = [Mkdir (''review/'' @ now w)] \<and>
    filter is_write (trace (main w)) =
      [WriteText (''review/'' @ now w @ ''/diff.txt'') diff_text,
       WriteText (''review/'' @ now w @ ''/meta.txt'')
         (meta_info w (now w) project_dir (dict_get config ''base_branch'' JNull) base_commit
            (drop 2 branch_out) head_commit (dict_get config ''model'' JNull)
            (dict_get config ''prompt'' JNull)),
       WriteText (''review/'' @ now w @ ''/review.md'') review] \<and>
    result (main w) = Inr ()"
proof -
  from assms have "filter (\<lambda>e. is_api_call e \<or> is_mkdir e) (trace (main w)) \<noteq> []"
    by (auto simp: filter_empty_conv)
  from main_inversion[OF this] obtain config pd bo bc hc dt where
    ins: "inspected w config pd bo bc hc" and ne: "bc \<noteq> hc"
    and dt: "result (get_diff w bc hc pd) = Inr dt" and st: "strip dt \<noteq> []"
    by blast
  let ?call = "call_gemini_api w (dict_get config ''model'' JNull)
              (py_str w (dict_get config ''prompt'' JNull) @ newline @ ''```'' @ dt @ ''```'')"
  obtain review where rv: "result ?call = Inr (Some review)"
  proof (cases "result ?call")
    case (Inl e)
    with assms ins ne dt st show ?thesis unfolding main_def inspected_def
      by (simp add: Let_def result_Path git_defs)
  next
    case (Inr r)
    show ?thesis
    proof (cases r)
      case None
      with Inr assms ins ne dt st show ?thesis unfolding main_def inspected_def
        by (simp add: Let_def result_Path git_defs)
    next
      case (Some x)
      with Inr show ?thesis by (simp add: that)
    qed
  qed
  have api: "filter is_api_call (trace ?call) \<noteq> []"
    by (rule call_some_attempted[OF rv])
  have "inspected w config pd bo bc hc \<and> bc \<noteq> hc \<and>
    result (get_diff w bc hc pd) = Inr dt \<and> strip dt \<noteq> [] \<and>
    result ?call = Inr (Some review) \<and>
    filter is_api_call (trace (main w)) \<noteq> [] \<and>
    filter is_mkdir (trace (main w)) = [Mkdir (''review/'' @ now w)] \<and>
    filter is_write (trace (main w)) =
      [WriteText (''review/'' @ now w @ ''/diff.txt'') dt,
       WriteText (''review/'' @ now w @ ''/meta.txt'')
         (meta_info w (now w) pd (dict_get config ''base_branch'' JNull) bc
            (drop 2 bo) hc (dict_get config ''model'' JNull)
            (dict_get config ''prompt'' JNull)),
       WriteText (''review/'' @ now w @ ''/review.md'') review] \<and>
    result (main w) = Inr ()"
    using ins ne dt st rv api unfolding main_def inspected_def
    by (simp add: Let_def result_Path path_join_def git_defs)
  then show ?thesis by blast
qed

theorem output_directory_witness:
  "filter is_mkdir (trace (main (demo_world overloaded_thrice)))
     = [Mkdir ''review/20250101_120000''] \<and>
   filter is_api_call (trace (main (demo_world overloaded_thrice))) \<noteq> [] \<and>
   length (filter is_write (trace (main (demo_world overloaded_thrice)))) = 3"
proof -
  have a: "filter is_mkdir (trace (main (demo_world overloaded_thrice))) \<noteq> []"
    by code_simp
  have n: "now (demo_world overloaded_thrice) = ''20250101_120000''"
    by (simp add: demo_world_def)
  from output_directory_only_with_review[OF a] show ?thesis by (auto simp: n)
qed

text \<open>
  C6. When the base commit equals the head commit, and when the commits differ and the
  diff is empty or white space only: the service is not called, no directory is created,
  and \<^verbatim>\<open>main\<close> returns after an informational message (exit status 0).
\<close>

theorem no_review_without_changes:
  assumes "inspected w config project_dir branch_out base_commit head_commit"
  shows "(base_commit = head_commit \<longrightarrow>
            filter is_api_call (trace (main w)) = [] \<and> filter is_mkdir (trace (main w)) = [] \<and>
            result (main w) = Inr () \<and> exit_status (main w) = 0 \<and>
            last (trace (main w)) = Stdout NoDifference) \<and>
         (base_commit \<noteq> head_commit \<and>
          result (get_diff w base_commit head_commit project_dir) = Inr diff_text \<and>
          list_all is_space diff_text \<longrightarrow>
            filter is_api_call (trace (main w)) = [] \<and> filter is_mkdir (trace (main w)) = [] \<and>
            result (main w) = Inr () \<and> exit_status (main w) = 0 \<and>
            last (trace (main w)) = Stdout DiffIsEmpty)"
  using assms unfolding inspected_def main_def
  by (simp add: Let_def Path_def git_defs exit_status_def strip_blank result_def[symmetric])

theorem no_review_without_changes_witness:
  "(filter is_api_call (trace (main same_commit_world)) = [] \<and>
    filter is_mkdir (trace (main same_commit_world)) = [] \<and>
    exit_status (main same_commit_world) = 0 \<and>
    last (trace (main same_commit_world)) = Stdout NoDifference) \<and>
   (filter is_api_call (trace (main blank_diff_world)) = [] \<and>
    filter is_mkdir (trace (main blank_diff_world)) = [] \<and>
    exit_status (main blank_diff_world) = 0 \<and>
    last (trace (main blank_diff_world)) = Stdout DiffIsEmpty)"
proof -
  have a: "inspected same_commit_world
     (AList.update ''prompt'' (JStr (''line1'' @ newline @ ''line2'')) demo_config)
     ''repo'' ''* feature'' ''a1'' ''a1''" by code_simp
  have b: "inspected blank_diff_world
     (AList.update ''prompt'' (JStr (''line1'' @ newline @ ''line2'')) demo_config)
     ''repo'' ''* feature'' ''a1'' ''b2''" by code_simp
  have c: "result (get_diff blank_diff_world ''a1'' ''b2'' ''repo'') = Inr []" by code_simp
  show ?thesis
    using no_review_without_changes[OF a, of "[]"] no_review_without_changes[OF b, of "[]"] c
    by simp
qed

text \<open>
  C7. In a run with the base branch \<open>B\<close>, the diff \<open>D\<close>, the prompt template \<open>P\<close> and the
  response \<open>R\<close>: \<^verbatim>\<open>diff.txt\<close> holds \<open>D\<close>, \<^verbatim>\<open>review.md\<close> holds \<open>R\<close>, and \<^verbatim>\<open>meta.txt\<close> holds the
  date, the resolved project path, the branch names and commit hashes, the model, a
  separator line and then \<open>P\<close>.
\<close>

theorem artifact_round_trip:
  assumes "inspected w config project_dir branch_out base_commit head_commit"
    and "base_commit \<noteq> head_commit"
    and "result (get_diff w base_commit head_commit project_dir) = Inr D"
    and "strip D \<noteq> []"
    and "dict_get config ''base_branch'' JNull = JStr B"
    and "dict_get config ''prompt'' JNull = JStr P"
    and "result (call_gemini_api w (dict_get config ''model'' JNull)
                   (P @ newline @ ''```'' @ D @ ''```'')) = Inr (Some R)"
  shows "filter is_write (trace (main w)) =
           [WriteText (''review/'' @ now w @ ''/diff.txt'') D,
            WriteText (''review/'' @ now w @ ''/meta.txt'')
              (''date: '' @ now w @ newline @
               ''project path: '' @ resolve w project_dir @ newline @
               ''base branch: '' @ B @ newline @
               ''base commit: '' @ base_commit @ newline @
               ''review target branch: '' @ drop 2 branch_out @ newline @
               ''review target commit: '' @ head_commit @ newline @
               ''model: '' @ py_str w (dict_get config ''model'' JNull) @ newline @
               ''----'' @ newline @ ''prompt:'' @ newline @ P @ newline),
            WriteText (''review/'' @ now w @ ''/review.md'') R]"
  using assms unfolding inspected_def main_def
  by (simp add: Let_def Path_def git_defs meta_info_def path_join_def py_str_def
        result_def[symmetric])

theorem artifact_round_trip_witness:
  "filter is_write (trace (main (demo_world overloaded_thrice))) =
     [WriteText ''review/20250101_120000/diff.txt'' ''+x'',
      WriteText ''review/20250101_120000/meta.txt''
        (''date: 20250101_120000'' @ newline @
         ''project path: /home/repo'' @ newline @
         ''base branch: main'' @ newline @
         ''base commit: a1'' @ newline @
         ''review target branch: feature'' @ newline @
         ''review target commit: b2'' @ newline @
         ''model: gemini-pro'' @ newline @
         ''----'' @ newline @ ''prompt:'' @ newline @
         ''line1'' @ newline @ ''line2'' @ newline),
      WriteText ''review/20250101_120000/review.md'' ''LGTM'']"
proof -
  let ?w = "demo_world overloaded_thrice"
  let ?c = "AList.update ''prompt'' (JStr (''line1'' @ newline @ ''line2'')) demo_config"
  have h1: "inspected ?w ?c ''repo'' ''* feature'' ''a1'' ''b2''" by code_simp
  have h2: "''a1'' \<noteq> ''b2''" by simp
  have h3: "result (get_diff ?w ''a1'' ''b2'' ''repo'') = Inr ''+x''" by code_simp
  have h4: "strip ''+x'' \<noteq> []" by code_simp
  have h5: "dict_get ?c ''base_branch'' JNull = JStr ''main''" by code_simp
  have h6: "dict_get ?c ''prompt'' JNull = JStr (''line1'' @ newline @ ''line2'')"
    by code_simp
  have h7: "result (call_gemini_api ?w (dict_get ?c ''model'' JNull)
      ((''line1'' @ newline @ ''line2'') @ newline @ ''```'' @ ''+x'' @ ''```''))
      = Inr (Some ''LGTM'')"
    by code_simp
  have m: "dict_get ?c ''model'' JNull = JStr ''gemini-pro''" by code_simp
  have n: "now ?w = ''20250101_120000''" by (simp add: demo_world_def)
  have r: "resolve ?w ''repo'' = ''/home/repo''" by (simp add: demo_world_def)
  have t: "filter is_write (trace (main ?w)) =
     [WriteText (''review/'' @ now ?w @ ''/diff.txt'') ''+x'',
      WriteText (''review/'' @ now ?w @ ''/meta.txt'')
        (''date: '' @ now ?w @ newline @
         ''project path: '' @ resolve ?w ''repo'' @ newline @
         ''base branch: '' @ ''main'' @ newline @
         ''base commit: '' @ ''a1'' @ newline @
         ''review target branch: '' @ drop 2 ''* feature'' @ newline @
         ''review target commit: '' @ ''b2'' @ newline @
         ''model: '' @ py_str ?w (dict_get ?c ''model'' JNull) @ newline @
         ''----'' @ newline @ ''prompt:'' @ newline @
         (''line1'' @ newline @ ''line2'') @ newline),
      WriteText (''review/'' @ now ?w @ ''/review.md'') ''LGTM'']"
    by (rule artifact_round_trip[OF h1 h2 h3 h4 h5 h6 h7])
  show ?thesis unfolding t m n r py_str_def by simp
qed

section \<open>Config Loader\<close>

text \<open>
  C8. When the configuration file does not exist, the process exits with status 1 after
  one diagnostic on the error stream; it runs no git command and calls no service.
\<close>

theorem missing_config_exits:
  assumes "read_file w ''review_config.json'' = None"
  shows "exit_status (main w) = 1 \<and>
         trace (main w) = [Stderr (ConfigNotFound ''review_config.json'')] \<and>
         filter is_git (trace (main w)) = [] \<and> filter is_api_call (trace (main w)) = []"
  using assms unfolding main_def
  by (simp add: load_config_def exit_status_def result_def[symmetric])

theorem missing_config_exits_witness:
  "read_file no_config_world ''review_config.json'' = None \<and>
   exit_status (main no_config_world) = 1 \<and>
   trace (main no_config_world) = [Stderr (ConfigNotFound ''review_config.json'')]"
proof -
  have a: "read_file no_config_world ''review_config.json'' = None"
    by (simp add: no_config_world_def)
  show ?thesis using a missing_config_exits[OF a] by simp
qed

text \<open>
  C9. A prompt given as a list of strings is replaced by the strings joined with newline
  characters, so \<^verbatim>\<open>["line1", "line2"]\<close> gives \<^verbatim>\<open>"line1\nline2"\<close>; a prompt given as a string
  is left as it is.
\<close>

theorem prompt_list_joined:
  assumes "read_file w path = Some text" and "json_load w text = Some (JObj config)"
  shows "(dict_get config ''prompt'' JNull = JArr (map JStr lines) \<longrightarrow>
           (\<exists>config'. load_config w path = (Inr config', []) \<and>
              dict_get config' ''prompt'' JNull = JStr (join newline lines))) \<and>
         (dict_get config ''prompt'' JNull = JStr s \<longrightarrow> load_config w path = (Inr config, [])) \<and>
         join newline [''line1'', ''line2''] = ''line1'' @ [CHR 0x0A] @ ''line2''"
  using assms
  by (simp add: load_config_def dict_get_update str_items_map ret_def newline_def)

theorem prompt_list_joined_witness:
  "(\<exists>config'. load_config (demo_world overloaded_thrice) ''review_config.json''
        = (Inr config', []) \<and>
      dict_get config' ''prompt'' JNull = JStr (join newline [''line1'', ''line2''])) \<and>
   load_config single_prompt_world ''review_config.json''
     = (Inr [(''prompt'', JStr ''review this'')], [])"
proof -
  have a: "read_file (demo_world overloaded_thrice) ''review_config.json'' = Some ''CONFIG''"
    by (simp add: demo_world_def)
  have b: "json_load (demo_world overloaded_thrice) ''CONFIG'' = Some (JObj demo_config)"
    by (simp add: demo_world_def)
  have c: "dict_get demo_config ''prompt'' JNull = JArr (map JStr [''line1'', ''line2''])"
    by (simp add: demo_config_def dict_get_def)
  have a': "read_file single_prompt_world ''review_config.json'' = Some ''CONFIG''"
    by (simp add: single_prompt_world_def demo_world_def)
  have b': "json_load single_prompt_world ''CONFIG''
      = Some (JObj [(''prompt'', JStr ''review this'')])"
    by (simp add: single_prompt_world_def)
  have c': "dict_get [(''prompt'', JStr ''review this'')] ''prompt'' JNull = JStr ''review this''"
    by (simp add: dict_get_def)
  show ?thesis
    using prompt_list_joined[OF a b, where lines = "[''line1'', ''line2'']"] c
          prompt_list_joined[OF a' b', where s = "''review this''"] c'
    by simp
qed

text \<open>
  C10. When the configuration file exists and is not valid JSON, \<^verbatim>\<open>load_config\<close> lets
  the \<^verbatim>\<open>JSONDecodeError\<close> through: the run ends with that exception and has printed
  nothing. The exit with status 1 and the diagnostic belong to the missing file only.
\<close>

theorem invalid_json_unhandled:
  assumes "read_file w ''review_config.json'' = Some text" and "json_load w text = None"
  shows "result (load_config w ''review_config.json'') = Inl JSONDecodeError \<and>
         result (main w) = Inl JSONDecodeError \<and> trace (main w) = [] \<and>
         exit_status (main w) = 1 \<and>
         (\<forall>p. (result (load_config w p) = Inl (SystemExit 1)) = (read_file w p = None)) \<and>
         (\<forall>p. (trace (load_config w p) = [Stderr (ConfigNotFound p)]) = (read_file w p = None))"
  using assms unfolding main_def
  by (auto simp add: load_config_def exit_status_def result_def[symmetric] split: option.splits json.splits)

theorem invalid_json_unhandled_witness:
  "result (main bad_json_world) = Inl JSONDecodeError \<and> trace (main bad_json_world) = [] \<and>
   exit_status (main bad_json_world) = 1"
proof -
  have a: "read_file bad_json_world ''review_config.json'' = Some ''CONFIG''"
    by (simp add: bad_json_world_def demo_world_def)
  have b: "json_load bad_json_world ''CONFIG'' = None"
    by (simp add: bad_json_world_def)
  show ?thesis using invalid_json_unhandled[OF a b] by simp
qed

end
